theory Spec2Isabelle
  imports Main
begin

section \<open>JavaScript values\<close>

text \<open>
  The driver reads values whose static type is \<open>any\<close>: the inputs of the inbound
  request and the parsed body of the user-info response. They are modelled by a
  datatype of JSON-like values; an object is the list of its own properties.
\<close>

datatype jsval =
    JUndefined
  | JNull
  | JBool bool
  | JNum int
  | JStr string
  | JArr "jsval list"
  | JObj "(string \<times> jsval) list"

text \<open>
  What the driver itself can throw is the TypeError of a property read on
  \<open>undefined\<close> or \<open>null\<close>. Every other failure is raised by a collaborator (the
  OAuth2 engine, the HTTP client, a caller's callback) and is carried as it is.
\<close>

datatype error = TypeError | Failure string

text \<open>Truthiness, as \<open>!v\<close> and \<open>v || w\<close> test it.\<close>

fun truthy :: "jsval \<Rightarrow> bool" where
  "truthy JUndefined = False"
| "truthy JNull = False"
| "truthy (JBool b) = b"
| "truthy (JNum n) = (n \<noteq> 0)"
| "truthy (JStr s) = (s \<noteq> [])"
| "truthy (JArr xs) = True"
| "truthy (JObj kvs) = True"

text \<open>
  \<open>v.k\<close>: a TypeError on \<open>undefined\<close> and \<open>null\<close>, the property's value on an object
  that has it, \<open>undefined\<close> otherwise. The names the driver reads (\<open>data\<close>, \<open>user\<close>,
  \<open>union_id\<close>, \<open>display_name\<close>, \<open>avatar_large_url\<close>) are no properties of a string,
  a number, a boolean or an array.
\<close>

fun getProp :: "jsval \<Rightarrow> string \<Rightarrow> error + jsval" where
  "getProp JUndefined k = Inl TypeError"
| "getProp JNull k = Inl TypeError"
| "getProp (JObj kvs) k = Inr (case map_of kvs k of None \<Rightarrow> JUndefined | Some v \<Rightarrow> v)"
| "getProp (JBool b) k = Inr JUndefined"
| "getProp (JNum n) k = Inr JUndefined"
| "getProp (JStr s) k = Inr JUndefined"
| "getProp (JArr xs) k = Inr JUndefined"

text \<open>\<open>v?.k\<close>: \<open>undefined\<close> where \<open>v.k\<close> would throw.\<close>

definition optProp :: "jsval \<Rightarrow> string \<Rightarrow> jsval" where
  "optProp v k = (case getProp v k of Inl e \<Rightarrow> JUndefined | Inr x \<Rightarrow> x)"

text \<open>\<open>xs.join(sep)\<close> on an array of strings.\<close>

fun js_join :: "string \<Rightarrow> string list \<Rightarrow> string" where
  "js_join sep [] = []"
| "js_join sep [x] = x"
| "js_join sep (x # y # ys) = x @ sep @ js_join sep (y # ys)"

section \<open>Configuration and tokens\<close>

record TikTokAccessToken =
  token :: string
  type :: string

record TikTokConfig =
  clientId :: string
  clientSecret :: string
  callbackUrl :: string
  authorizeUrl :: "string option"
  accessTokenUrl :: "string option"
  userInfoUrl :: "string option"
  scopes :: "string list option"

text \<open>The driver's own fields (the class initialisers of \<open>TikTokDriver\<close>).\<close>

definition driver_authorizeUrl :: string where
  "driver_authorizeUrl = ''https://www.tiktok.com/v2/auth/authorize/''"

definition driver_accessTokenUrl :: string where
  "driver_accessTokenUrl = ''https://open.tiktokapis.com/v2/oauth/token/''"

definition driver_userInfoUrl :: string where
  "driver_userInfoUrl = ''https://open.tiktokapis.com/v2/user/info/''"

definition codeParamName :: string where
  "codeParamName = ''code''"

definition errorParamName :: string where
  "errorParamName = ''error''"

definition scopeParamName :: string where
  "scopeParamName = ''scope''"

definition scopesSeparator :: string where
  "scopesSeparator = '' ''"

definition userProfileFields :: "string list" where
  "userProfileFields =
     [''open_id'', ''union_id'', ''avatar_url'', ''avatar_url_100'',
      ''avatar_large_url'', ''display_name'']"

section \<open>The framework's request builders\<close>

text \<open>
  \<open>RedirectRequest\<close> and \<open>ApiRequest\<close>/\<open>HttpClient\<close> are classes of the
  framework the driver extends. The model keeps of them the stores the driver
  writes: \<open>param\<close>, \<open>field\<close> and \<open>header\<close> store a value under a key (replacing an
  earlier one), \<open>clearParam\<close> removes a key, \<open>parseAs\<close> records the response
  type. A method mutates the builder; the model returns the updated builder.
\<close>

record RedirectRequest =
  redirect_params :: "string \<rightharpoonup> string"

definition redirect_param :: "string \<Rightarrow> string \<Rightarrow> RedirectRequest \<Rightarrow> RedirectRequest" where
  "redirect_param k v r = r\<lparr>redirect_params := (redirect_params r)(k \<mapsto> v)\<rparr>"

definition clearParam :: "string \<Rightarrow> RedirectRequest \<Rightarrow> RedirectRequest" where
  "clearParam k r = r\<lparr>redirect_params := (redirect_params r)(k := None)\<rparr>"

record ApiRequest =
  req_url :: string
  req_params :: "string \<rightharpoonup> string"
  req_fields :: "string \<rightharpoonup> jsval"
  req_headers :: "string \<rightharpoonup> string"
  req_parseAs :: "string option"

definition httpClient :: "string \<Rightarrow> ApiRequest" where
  "httpClient u =
     \<lparr>req_url = u, req_params = Map.empty, req_fields = Map.empty,
      req_headers = Map.empty, req_parseAs = None\<rparr>"

definition header :: "string \<Rightarrow> string \<Rightarrow> ApiRequest \<Rightarrow> ApiRequest" where
  "header k v r = r\<lparr>req_headers := (req_headers r)(k \<mapsto> v)\<rparr>"

definition field :: "string \<Rightarrow> jsval \<Rightarrow> ApiRequest \<Rightarrow> ApiRequest" where
  "field k v r = r\<lparr>req_fields := (req_fields r)(k \<mapsto> v)\<rparr>"

definition param :: "string \<Rightarrow> string \<Rightarrow> ApiRequest \<Rightarrow> ApiRequest" where
  "param k v r = r\<lparr>req_params := (req_params r)(k \<mapsto> v)\<rparr>"

definition parseAs :: "string \<Rightarrow> ApiRequest \<Rightarrow> ApiRequest" where
  "parseAs t r = r\<lparr>req_parseAs := Some t\<rparr>"

text \<open>
  The inbound request of the HTTP context: \<open>ctx.request.input(k)\<close> is the value
  sent under \<open>k\<close>, \<open>undefined\<close> when there is none.
\<close>

record HttpContext =
  request_inputs :: "string \<rightharpoonup> jsval"

definition input :: "HttpContext \<Rightarrow> string \<Rightarrow> jsval" where
  "input ctx k = (case request_inputs ctx k of None \<Rightarrow> JUndefined | Some v \<Rightarrow> v)"

section \<open>The driver: request customisation\<close>

text \<open>
  \<open>configureRedirectRequest\<close> (driver.ts, 142-149). \<open>this.config.scopes || [..]\<close>
  takes the default only when the list is \<open>undefined\<close>: an array, empty or not,
  is truthy.
\<close>

definition configureRedirectRequest :: "TikTokConfig \<Rightarrow> RedirectRequest \<Rightarrow> RedirectRequest" where
  "configureRedirectRequest config request =
     (let scopes' = (case scopes config of None \<Rightarrow> [''user.info.basic''] | Some s \<Rightarrow> s);
          r1 = redirect_param scopeParamName (js_join '','' scopes') request;
          r2 = redirect_param ''client_key'' (clientId config) r1;
          r3 = redirect_param ''response_type'' ''code'' r2
      in clearParam ''client_id'' r3)"

text \<open>\<open>configureAccessTokenRequest\<close> (driver.ts, 151-159).\<close>

definition configureAccessTokenRequest ::
  "TikTokConfig \<Rightarrow> HttpContext \<Rightarrow> ApiRequest \<Rightarrow> ApiRequest" where
  "configureAccessTokenRequest config ctx request =
     field ''code'' (input ctx codeParamName)
       (field ''redirect_uri'' (JStr (callbackUrl config))
         (field ''client_secret'' (JStr (clientSecret config))
           (field ''client_key'' (JStr (clientId config))
             (field ''grant_type'' (JStr ''authorization_code'')
               (header ''Content-Type'' ''application/x-www-form-urlencoded'' request)))))"

section \<open>The driver: access denied\<close>

text \<open>
  What the driver uses of the engine it extends (\<open>Oauth2Driver\<close>) and of the HTTP
  client, for the current inbound request: the error that \<open>getError()\<close> extracts,
  the outcome of the code exchange \<open>accessToken(callback)\<close>, and the outcome of
  \<open>request.get()\<close>, which is the parsed response body or a failure. A caller's
  callback customises a request; like any call it may throw.
\<close>

type_synonym callback = "ApiRequest \<Rightarrow> error + ApiRequest"

record Engine =
  getError :: jsval
  accessToken :: "callback option \<Rightarrow> error + TikTokAccessToken"
  get :: "ApiRequest \<Rightarrow> error + jsval"

text \<open>\<open>accessDenied\<close> (driver.ts, 133-140).\<close>

definition accessDenied :: "Engine \<Rightarrow> bool" where
  "accessDenied eng =
     (let error = getError eng
      in if \<not> truthy error then False else error = JStr ''invalid_request'')"

section \<open>The driver: fetching the user\<close>

text \<open>
  The calls that leave the driver are recorded in the order they are made, so
  that a claim about which steps an operation performs can be stated.
\<close>

datatype event = CodeExchange | HttpGet ApiRequest

record UserInfo =
  user_id :: jsval
  user_nickName :: jsval
  user_name :: jsval
  user_avatarUrl :: jsval
  user_email :: string
  user_emailVerificationState :: string
  user_original :: jsval

record AllyUser = UserInfo +
  user_token :: TikTokAccessToken

text \<open>\<open>getAuthenticatedRequest\<close> (driver.ts, 208-214).\<close>

definition getAuthenticatedRequest :: "string \<Rightarrow> string \<Rightarrow> ApiRequest" where
  "getAuthenticatedRequest u tok =
     parseAs ''json''
       (param ''fields'' (js_join '','' userProfileFields)
         (header ''Authorization'' (''Bearer '' @ tok) (httpClient u)))"

text \<open>
  \<open>getUserInfo\<close> (driver.ts, 188-206). \<open>this.config.userInfoUrl || this.userInfoUrl\<close>
  takes the driver's URL when the configured one is \<open>undefined\<close> or the empty
  string. The object literal reads \<open>user.union_id\<close> first, and that read throws
  when \<open>user\<close> is \<open>undefined\<close> or \<open>null\<close>.
\<close>

definition getUserInfo ::
  "Engine \<Rightarrow> TikTokConfig \<Rightarrow> string \<Rightarrow> callback option \<Rightarrow> event list \<times> (error + UserInfo)" where
  "getUserInfo eng config tok cb =
     (let request = getAuthenticatedRequest
            (case userInfoUrl config of
               None \<Rightarrow> driver_userInfoUrl
             | Some u \<Rightarrow> if u = [] then driver_userInfoUrl else u) tok
      in case (case cb of None \<Rightarrow> Inr request | Some f \<Rightarrow> f request) of
           Inl e \<Rightarrow> ([], Inl e)
         | Inr request' \<Rightarrow>
             ([HttpGet request'],
              (case get eng request' of
                 Inl e \<Rightarrow> Inl e
               | Inr response \<Rightarrow>
                   (case getProp response ''data'' of
                      Inl e \<Rightarrow> Inl e
                    | Inr data \<Rightarrow>
                        (let user = optProp data ''user''
                         in case getProp user ''union_id'' of
                              Inl e \<Rightarrow> Inl e
                            | Inr uid \<Rightarrow>
                                (case getProp user ''display_name'' of
                                   Inl e \<Rightarrow> Inl e
                                 | Inr dn \<Rightarrow>
                                     (case getProp user ''avatar_large_url'' of
                                        Inl e \<Rightarrow> Inl e
                                      | Inr av \<Rightarrow>
                                          Inr \<lparr>user_id = uid, user_nickName = dn,
                                               user_name = dn, user_avatarUrl = av,
                                               user_email = [],
                                               user_emailVerificationState = ''unsupported'',
                                               user_original = response\<rparr>)))))))"

text \<open>
  The spread \<open>{...user, token: t}\<close>: the fields of the fetched record, and the
  token.
\<close>

definition spread_token :: "UserInfo \<Rightarrow> TikTokAccessToken \<Rightarrow> AllyUser" where
  "spread_token u t =
     \<lparr>user_id = user_id u, user_nickName = user_nickName u, user_name = user_name u,
      user_avatarUrl = user_avatarUrl u, user_email = user_email u,
      user_emailVerificationState = user_emailVerificationState u,
      user_original = user_original u, user_token = t\<rparr>"

text \<open>\<open>user\<close> (driver.ts, 165-174).\<close>

definition user ::
  "Engine \<Rightarrow> TikTokConfig \<Rightarrow> callback option \<Rightarrow> event list \<times> (error + AllyUser)" where
  "user eng config cb =
     (case accessToken eng cb of
        Inl e \<Rightarrow> ([CodeExchange], Inl e)
      | Inr t \<Rightarrow>
          (case getUserInfo eng config (token t) cb of
             (tr, Inl e) \<Rightarrow> (CodeExchange # tr, Inl e)
           | (tr, Inr u) \<Rightarrow> (CodeExchange # tr, Inr (spread_token u t))))"

text \<open>\<open>userFromToken\<close> (driver.ts, 176-186).\<close>

definition userFromToken ::
  "Engine \<Rightarrow> TikTokConfig \<Rightarrow> string \<Rightarrow> callback option \<Rightarrow> event list \<times> (error + AllyUser)" where
  "userFromToken eng config tok cb =
     (case getUserInfo eng config tok cb of
        (tr, Inl e) \<Rightarrow> (tr, Inl e)
      | (tr, Inr u) \<Rightarrow> (tr, Inr (spread_token u \<lparr>token = tok, type = ''bearer''\<rparr>)))"

text \<open>
  The read \<open>user.union_id\<close> throws exactly when \<open>response.data?.user\<close> is
  \<open>undefined\<close> or \<open>null\<close>; the read \<open>response.data\<close> before it throws when the
  body itself is \<open>undefined\<close> or \<open>null\<close>.
\<close>

definition user_nullish :: "jsval \<Rightarrow> bool" where
  "user_nullish response =
     (case getProp response ''data'' of
        Inl e \<Rightarrow> True
      | Inr data \<Rightarrow> optProp data ''user'' = JUndefined \<or> optProp data ''user'' = JNull)"

text \<open>
  The specification's notion of a response with the expected nested user
  object: \<open>response.data.user\<close> is an object.
\<close>

definition has_user_object :: "jsval \<Rightarrow> bool" where
  "has_user_object response =
     (case getProp response ''data'' of
        Inl e \<Rightarrow> False
      | Inr data \<Rightarrow> (case optProp data ''user'' of JObj kvs \<Rightarrow> True | _ \<Rightarrow> False))"

section \<open>Sample inputs\<close>

definition sample_config :: TikTokConfig where
  "sample_config =
     \<lparr>clientId = ''ck'', clientSecret = ''cs'', callbackUrl = ''https://app/cb'',
      authorizeUrl = None, accessTokenUrl = None, userInfoUrl = None, scopes = None\<rparr>"

definition engine_redirect :: RedirectRequest where
  "engine_redirect =
     \<lparr>redirect_params = [''client_id'' \<mapsto> ''ck'', ''redirect_uri'' \<mapsto> ''https://app/cb'']\<rparr>"

definition sample_user :: jsval where
  "sample_user =
     JObj [(''union_id'', JStr ''u1''), (''display_name'', JStr ''Alice''),
           (''avatar_large_url'', JStr ''http://a/av.png'')]"

definition sample_response :: jsval where
  "sample_response = JObj [(''data'', JObj [(''user'', sample_user)])]"

definition sample_token :: TikTokAccessToken where
  "sample_token = \<lparr>token = ''tok'', type = ''bearer''\<rparr>"

definition sample_engine :: "jsval \<Rightarrow> jsval \<Rightarrow> Engine" where
  "sample_engine err response =
     \<lparr>getError = err, accessToken = (\<lambda>cb. Inr sample_token), get = (\<lambda>rq. Inr response)\<rparr>"

definition sample_ctx :: HttpContext where
  "sample_ctx = \<lparr>request_inputs = [''code'' \<mapsto> JStr ''abc'', ''state'' \<mapsto> JStr ''xyz'']\<rparr>"

text \<open>
  A token-exchange builder as the engine hands it to the driver: it carries the
  standard fields \<open>grant_type\<close>, \<open>redirect_uri\<close>, \<open>client_id\<close> and \<open>client_secret\<close>.
\<close>

definition engine_token_request :: ApiRequest where
  "engine_token_request =
     field ''client_secret'' (JStr ''cs'')
       (field ''client_id'' (JStr ''ck'')
         (field ''redirect_uri'' (JStr ''https://app/cb'')
           (field ''grant_type'' (JStr ''authorization_code'')
             (httpClient driver_accessTokenUrl))))"

text \<open>A parsed user-info body without \<open>data.user\<close>.\<close>

definition response_without_user :: jsval where
  "response_without_user =
     JObj [(''data'', JObj []), (''error'', JObj [(''code'', JStr ''ok'')])]"

text \<open>A parsed user-info body whose \<open>data.user\<close> is a string.\<close>

definition response_string_user :: jsval where
  "response_string_user = JObj [(''data'', JObj [(''user'', JStr ''abc'')])]"

section \<open>Properties of the request builders\<close>

lemma redirect_params_configured:
  "redirect_params (configureRedirectRequest config request) =
     (redirect_params request)
       (scopeParamName \<mapsto>
          js_join '','' (case scopes config of None \<Rightarrow> [''user.info.basic''] | Some s \<Rightarrow> s),
        ''client_key'' \<mapsto> clientId config,
        ''response_type'' \<mapsto> ''code'',
        ''client_id'' := None)"
  by (simp add: configureRedirectRequest_def redirect_param_def clearParam_def Let_def)

lemma token_request_fields_eq:
  "req_fields (configureAccessTokenRequest config ctx request) =
     (req_fields request)
       (''grant_type'' \<mapsto> JStr ''authorization_code'',
        ''client_key'' \<mapsto> JStr (clientId config),
        ''client_secret'' \<mapsto> JStr (clientSecret config),
        ''redirect_uri'' \<mapsto> JStr (callbackUrl config),
        ''code'' \<mapsto> input ctx ''code'')"
  by (simp add: configureAccessTokenRequest_def field_def header_def codeParamName_def)

lemma token_request_headers_eq:
  "req_headers (configureAccessTokenRequest config ctx request) =
     (req_headers request)(''Content-Type'' \<mapsto> ''application/x-www-form-urlencoded'')"
  by (simp add: configureAccessTokenRequest_def field_def header_def)

lemma getAuthenticatedRequest_url: "req_url (getAuthenticatedRequest u tok) = u"
  by (simp add: getAuthenticatedRequest_def parseAs_def param_def header_def httpClient_def)

section \<open>Properties of the profile fetch\<close>

lemma getProp_TypeError: "getProp v k = Inl e \<Longrightarrow> e = TypeError"
  by (cases v) auto

lemma getProp_fails: "v = JUndefined \<or> v = JNull \<Longrightarrow> getProp v k = Inl TypeError"
  by auto

lemma getProp_defined:
  "v \<noteq> JUndefined \<Longrightarrow> v \<noteq> JNull \<Longrightarrow> \<exists>x. getProp v k = Inr x"
  by (cases v) auto

text \<open>
  When the fetch has sent a request \<open>rq\<close>, its outcome is decided by what the
  HTTP client answers to \<open>rq\<close>.
\<close>

lemma getUserInfo_result:
  assumes "fst (getUserInfo eng config tok cb) = [HttpGet rq]"
  shows "snd (getUserInfo eng config tok cb) =
     (case get eng rq of
        Inl e \<Rightarrow> Inl e
      | Inr response \<Rightarrow>
          (case getProp response ''data'' of
             Inl e \<Rightarrow> Inl e
           | Inr data \<Rightarrow>
               (case getProp (optProp data ''user'') ''union_id'' of
                  Inl e \<Rightarrow> Inl e
                | Inr uid \<Rightarrow>
                    (case getProp (optProp data ''user'') ''display_name'' of
                       Inl e \<Rightarrow> Inl e
                     | Inr dn \<Rightarrow>
                         (case getProp (optProp data ''user'') ''avatar_large_url'' of
                            Inl e \<Rightarrow> Inl e
                          | Inr av \<Rightarrow>
                              Inr \<lparr>user_id = uid, user_nickName = dn,
                                   user_name = dn, user_avatarUrl = av,
                                   user_email = [],
                                   user_emailVerificationState = ''unsupported'',
                                   user_original = response\<rparr>)))))"
proof (cases "case cb of
      None \<Rightarrow> Inr (getAuthenticatedRequest
               (case userInfoUrl config of
                  None \<Rightarrow> driver_userInfoUrl
                | Some u \<Rightarrow> if u = [] then driver_userInfoUrl else u) tok)
    | Some f \<Rightarrow> f (getAuthenticatedRequest
               (case userInfoUrl config of
                  None \<Rightarrow> driver_userInfoUrl
                | Some u \<Rightarrow> if u = [] then driver_userInfoUrl else u) tok)")
  case (Inl e)
  with assms show ?thesis
    by (simp add: getUserInfo_def Let_def)
next
  case (Inr rq')
  with assms have "rq' = rq"
    by (simp add: getUserInfo_def Let_def)
  with Inr show ?thesis
    by (simp add: getUserInfo_def Let_def cong: sum.case_cong)
qed

lemma lacks_user_TypeError:
  assumes "fst (getUserInfo eng config tok cb) = [HttpGet rq]"
    and "get eng rq = Inr response" and "user_nullish response"
  shows "snd (getUserInfo eng config tok cb) = Inl TypeError"
proof (cases "getProp response ''data''")
  case (Inl e)
  then have "e = TypeError" by (rule getProp_TypeError)
  with Inl assms(2) show ?thesis
    by (simp add: getUserInfo_result [OF assms(1)])
next
  case (Inr data)
  with assms(3) have "optProp data ''user'' = JUndefined \<or> optProp data ''user'' = JNull"
    by (simp add: user_nullish_def)
  then have "getProp (optProp data ''user'') ''union_id'' = Inl TypeError"
    by (rule getProp_fails)
  with Inr assms(2) show ?thesis
    by (simp add: getUserInfo_result [OF assms(1)])
qed

text \<open>A response with the user object is one on which the reads do not throw.\<close>

lemma has_user_object_not_nullish: "has_user_object response \<Longrightarrow> \<not> user_nullish response"
  by (auto simp add: has_user_object_def user_nullish_def split: sum.splits)

lemma getUserInfo_no_exchange:
  "CodeExchange \<notin> set (fst (getUserInfo eng config tok cb))"
  by (simp add: getUserInfo_def Let_def split: sum.splits)

lemma getUserInfo_accessToken_unused:
  "getUserInfo (eng\<lparr>accessToken := f\<rparr>) config tok cb = getUserInfo eng config tok cb"
  by (simp add: getUserInfo_def Let_def cong: sum.case_cong)

lemma user_snd:
  "accessToken eng cb = Inr t \<Longrightarrow>
   snd (user eng config cb) =
     (case snd (getUserInfo eng config (token t) cb) of
        Inl e \<Rightarrow> Inl e | Inr u \<Rightarrow> Inr (spread_token u t))"
  by (simp add: user_def split: prod.splits sum.splits)

lemma userFromToken_snd:
  "snd (userFromToken eng config tok cb) =
     (case snd (getUserInfo eng config tok cb) of
        Inl e \<Rightarrow> Inl e
      | Inr u \<Rightarrow> Inr (spread_token u \<lparr>token = tok, type = ''bearer''\<rparr>))"
  by (simp add: userFromToken_def split: prod.splits sum.splits)

lemma userFromToken_fst:
  "fst (userFromToken eng config tok cb) = fst (getUserInfo eng config tok cb)"
  by (simp add: userFromToken_def split: prod.splits sum.splits)

lemma sample_request:
  "fst (getUserInfo (sample_engine err response) sample_config tok None)
     = [HttpGet (getAuthenticatedRequest driver_userInfoUrl tok)]"
  by (simp add: getUserInfo_def Let_def sample_config_def)

section \<open>The claims\<close>

subsection \<open>C1: the scope parameter of a configured scope list\<close>

text \<open>
  C1, as stated (the scopes joined by single spaces), fails: the driver joins
  with \<open>','\<close> and does not consult its \<open>scopesSeparator\<close> field. With the scopes
  \<open>user.info.basic\<close> and \<open>video.list\<close> the parameter is not the space-joined
  string.
\<close>

theorem scope_space_join_counterexample:
  "redirect_params
     (configureRedirectRequest
        (sample_config\<lparr>scopes := Some [''user.info.basic'', ''video.list'']\<rparr>) engine_redirect)
     ''scope''
   \<noteq> Some (js_join '' '' [''user.info.basic'', ''video.list''])"
  by (simp add: redirect_params_configured scopeParamName_def sample_config_def)

text \<open>
  C1, amended: for every configuration with a non-empty scope list \<open>S\<close>, the
  customisation sets the \<open>scope\<close> parameter to the elements of \<open>S\<close> joined by
  single commas.
\<close>

theorem scope_comma_join:
  assumes "scopes config = Some S" and "S \<noteq> []"
  shows "redirect_params (configureRedirectRequest config request) ''scope''
           = Some (js_join '','' S)"
  using assms by (simp add: redirect_params_configured scopeParamName_def)

text \<open>C1, amended, at the scopes \<open>user.info.basic\<close> and \<open>video.list\<close>.\<close>

theorem scope_comma_join_witness:
  "redirect_params
     (configureRedirectRequest
        (sample_config\<lparr>scopes := Some [''user.info.basic'', ''video.list'']\<rparr>) engine_redirect)
     ''scope''
   = Some ''user.info.basic,video.list''"
  using scope_comma_join [of "sample_config\<lparr>scopes := Some [''user.info.basic'', ''video.list'']\<rparr>"
      "[''user.info.basic'', ''video.list'']" engine_redirect]
  by (simp add: sample_config_def)

subsection \<open>C2: the record of the authenticated user\<close>



subsection \<open>C3: the token-exchange request\<close>

text \<open>
  What the customisation does on every builder: it sets the five fields and the
  Content-Type header, and leaves every other field of the builder in place.
\<close>

lemma token_request_sets_fields:
  "req_fields (configureAccessTokenRequest config ctx request) ''grant_type''
     = Some (JStr ''authorization_code'')
   \<and> req_fields (configureAccessTokenRequest config ctx request) ''client_key''
     = Some (JStr (clientId config))
   \<and> req_fields (configureAccessTokenRequest config ctx request) ''client_secret''
     = Some (JStr (clientSecret config))
   \<and> req_fields (configureAccessTokenRequest config ctx request) ''redirect_uri''
     = Some (JStr (callbackUrl config))
   \<and> req_fields (configureAccessTokenRequest config ctx request) ''code''
     = Some (input ctx codeParamName)
   \<and> req_headers (configureAccessTokenRequest config ctx request) ''Content-Type''
     = Some ''application/x-www-form-urlencoded''
   \<and> dom (req_fields (configureAccessTokenRequest config ctx request))
     = dom (req_fields request)
         \<union> {''grant_type'', ''client_key'', ''client_secret'', ''redirect_uri'', ''code''}"
  by (auto simp add: token_request_fields_eq token_request_headers_eq codeParamName_def)

lemma engine_token_request_fields:
  "req_fields engine_token_request =
     [''grant_type'' \<mapsto> JStr ''authorization_code'',
      ''redirect_uri'' \<mapsto> JStr ''https://app/cb'',
      ''client_id'' \<mapsto> JStr ''ck'', ''client_secret'' \<mapsto> JStr ''cs'']"
  by (simp add: engine_token_request_def field_def httpClient_def)

text \<open>
  C3: the body is to hold exactly the five fields \<open>grant_type\<close>, \<open>client_key\<close>,
  \<open>client_secret\<close>, \<open>redirect_uri\<close> and \<open>code\<close>. On the builder the engine hands
  over, the driver adds \<open>client_key\<close> and \<open>code\<close> and does not clear \<open>client_id\<close>, as
  the redirect customisation does for the query: the body has six fields, with
  the client id under both names.
\<close>

theorem token_request_keeps_client_id:
  "dom (req_fields (configureAccessTokenRequest sample_config sample_ctx engine_token_request))
     = {''grant_type'', ''client_key'', ''client_secret'', ''redirect_uri'', ''code'',
        ''client_id''}
   \<and> req_fields (configureAccessTokenRequest sample_config sample_ctx engine_token_request)
        ''client_id'' = Some (JStr ''ck'')
   \<and> req_fields (configureAccessTokenRequest sample_config sample_ctx engine_token_request)
        ''client_key'' = Some (JStr ''ck'')
   \<and> dom (req_fields (configureAccessTokenRequest sample_config sample_ctx engine_token_request))
     \<noteq> {''grant_type'', ''client_key'', ''client_secret'', ''redirect_uri'', ''code''}"
proof -
  have six: "dom (req_fields
        (configureAccessTokenRequest sample_config sample_ctx engine_token_request))
     = {''grant_type'', ''client_key'', ''client_secret'', ''redirect_uri'', ''code'',
        ''client_id''}"
    unfolding token_request_fields_eq engine_token_request_fields dom_fun_upd dom_empty
    by (simp add: insert_commute)
  have id: "req_fields
      (configureAccessTokenRequest sample_config sample_ctx engine_token_request)
        ''client_id'' = Some (JStr ''ck'')"
    by (simp add: token_request_fields_eq engine_token_request_fields)
  have key: "req_fields
      (configureAccessTokenRequest sample_config sample_ctx engine_token_request)
        ''client_key'' = Some (JStr ''ck'')"
    by (simp add: token_request_fields_eq sample_config_def)
  have "''client_id'' \<in> dom (req_fields
      (configureAccessTokenRequest sample_config sample_ctx engine_token_request))"
    using id by (simp add: domI)
  moreover have "''client_id'' \<notin>
      {''grant_type'', ''client_key'', ''client_secret'', ''redirect_uri'', ''code''}"
    by simp
  ultimately have "dom (req_fields
        (configureAccessTokenRequest sample_config sample_ctx engine_token_request))
     \<noteq> {''grant_type'', ''client_key'', ''client_secret'', ''redirect_uri'', ''code''}"
    by metis
  with six id key show ?thesis by (intro conjI)
qed

subsection \<open>C4: access denied\<close>

text \<open>
  C4: \<open>accessDenied\<close> is true if and only if the error the engine extracted is
  the string \<open>invalid_request\<close>; it is false when the error is absent, empty or
  \<open>access_denied\<close>.
\<close>

theorem access_denied_iff:
  "accessDenied eng = (getError eng = JStr ''invalid_request'')
   \<and> \<not> accessDenied (eng\<lparr>getError := JUndefined\<rparr>)
   \<and> \<not> accessDenied (eng\<lparr>getError := JStr []\<rparr>)
   \<and> \<not> accessDenied (eng\<lparr>getError := JStr ''access_denied''\<rparr>)"
  by (cases "getError eng") (auto simp add: accessDenied_def Let_def)

subsection \<open>C5: the user of a token already held\<close>

text \<open>
  C5: \<open>userFromToken\<close> with the token string \<open>tok\<close> makes no code exchange (none is
  among its calls, and its outcome does not depend on what an exchange would
  give); every record it returns has the token \<open>{token: tok, type: 'bearer'}\<close>;
  and it returns a record when the profile request is answered by a response
  whose \<open>data?.user\<close> is neither \<open>undefined\<close> nor \<open>null\<close>.
\<close>

theorem user_from_token:
  "CodeExchange \<notin> set (fst (userFromToken eng config tok cb))
   \<and> userFromToken (eng\<lparr>accessToken := f\<rparr>) config tok cb = userFromToken eng config tok cb
   \<and> (\<forall>r. snd (userFromToken eng config tok cb) = Inr r \<longrightarrow>
          user_token r = \<lparr>token = tok, type = ''bearer''\<rparr>)
   \<and> (fst (getUserInfo eng config tok cb) = [HttpGet rq] \<and> get eng rq = Inr response
        \<and> \<not> user_nullish response \<longrightarrow>
      (\<exists>r. snd (userFromToken eng config tok cb) = Inr r))"
proof (intro conjI allI impI)
  show "CodeExchange \<notin> set (fst (userFromToken eng config tok cb))"
    by (simp add: userFromToken_fst getUserInfo_no_exchange)
  show "userFromToken (eng\<lparr>accessToken := f\<rparr>) config tok cb = userFromToken eng config tok cb"
    by (simp add: userFromToken_def getUserInfo_accessToken_unused)
next
  fix r
  assume "snd (userFromToken eng config tok cb) = Inr r"
  then show "user_token r = \<lparr>token = tok, type = ''bearer''\<rparr>"
    by (auto simp add: userFromToken_snd spread_token_def split: sum.splits)
next
  assume h: "fst (getUserInfo eng config tok cb) = [HttpGet rq] \<and> get eng rq = Inr response
        \<and> \<not> user_nullish response"
  then obtain data where d: "getProp response ''data'' = Inr data"
      and u: "optProp data ''user'' \<noteq> JUndefined" "optProp data ''user'' \<noteq> JNull"
    by (auto simp add: user_nullish_def split: sum.splits)
  from u obtain x y z where
    "getProp (optProp data ''user'') ''union_id'' = Inr x"
    "getProp (optProp data ''user'') ''display_name'' = Inr y"
    "getProp (optProp data ''user'') ''avatar_large_url'' = Inr z"
    using getProp_defined by metis
  with h d show "\<exists>r. snd (userFromToken eng config tok cb) = Inr r"
    by (simp add: userFromToken_snd getUserInfo_result)
qed

text \<open>C5 at the token \<open>tok2\<close>.\<close>

theorem user_from_token_witness:
  "\<exists>r. snd (userFromToken (sample_engine JUndefined sample_response) sample_config ''tok2'' None)
          = Inr r \<and> user_token r = \<lparr>token = ''tok2'', type = ''bearer''\<rparr>"
proof -
  have "\<not> user_nullish sample_response"
    by (simp add: user_nullish_def sample_response_def sample_user_def optProp_def)
  then show ?thesis
    using user_from_token [of "sample_engine JUndefined sample_response" sample_config
        "''tok2''" None "accessToken (sample_engine JUndefined sample_response)"
        "getAuthenticatedRequest driver_userInfoUrl ''tok2''" sample_response]
      sample_request [of JUndefined sample_response "''tok2''"]
    by (auto simp add: sample_engine_def)
qed

subsection \<open>C6: the client key of the redirect request\<close>

text \<open>
  C6: whatever the configuration and whatever the engine has put in the builder,
  after the customisation the redirect query has \<open>client_key\<close> equal to the
  configured client id, \<open>response_type\<close> equal to \<open>code\<close>, and no \<open>client_id\<close>.
\<close>

theorem redirect_client_key:
  "redirect_params (configureRedirectRequest config request) ''client_key'' = Some (clientId config)
   \<and> redirect_params (configureRedirectRequest config request) ''response_type'' = Some ''code''
   \<and> redirect_params (configureRedirectRequest config request) ''client_id'' = None"
  by (simp add: redirect_params_configured scopeParamName_def)

subsection \<open>C7: the default scope\<close>

text \<open>
  C7: for every configuration without a scope list, the customisation sets the
  \<open>scope\<close> parameter to \<open>user.info.basic\<close>.
\<close>

theorem default_scope:
  assumes "scopes config = None"
  shows "redirect_params (configureRedirectRequest config request) ''scope''
           = Some ''user.info.basic''"
  using assms by (simp add: redirect_params_configured scopeParamName_def)

text \<open>C7 at a configuration with the three credentials only.\<close>

theorem default_scope_witness:
  "redirect_params (configureRedirectRequest sample_config engine_redirect) ''scope''
     = Some ''user.info.basic''"
  using default_scope [of sample_config engine_redirect]
  by (simp add: sample_config_def)

subsection \<open>C8: the user-info URL\<close>

text \<open>
  C8, as stated (every supplied override is the target), fails at the override
  \<open>''\<close>: the empty string is falsy, and the fetch targets the driver's URL.
\<close>

theorem user_info_url_empty_counterexample:
  "fst (getUserInfo (sample_engine JUndefined sample_response)
          (sample_config\<lparr>userInfoUrl := Some []\<rparr>) ''tok'' None)
     = [HttpGet (getAuthenticatedRequest driver_userInfoUrl ''tok'')]
   \<and> req_url (getAuthenticatedRequest driver_userInfoUrl ''tok'') \<noteq> []"
  by (simp add: getUserInfo_def Let_def sample_config_def getAuthenticatedRequest_def
      parseAs_def param_def header_def httpClient_def driver_userInfoUrl_def)

text \<open>
  C8, amended: for every configuration with a non-empty \<open>userInfoUrl\<close> override
  the profile request is built for the override URL, and for every
  configuration without the override it is built for the driver's default
  URL. That request is the one sent when there is no callback, and the one
  handed to the callback when there is one.
\<close>

theorem user_info_url:
  "req_url (getAuthenticatedRequest u tok) = u
   \<and> (userInfoUrl config = Some u \<and> u \<noteq> [] \<longrightarrow>
        fst (getUserInfo eng config tok None) = [HttpGet (getAuthenticatedRequest u tok)]
        \<and> (\<forall>f rq. f (getAuthenticatedRequest u tok) = Inr rq \<longrightarrow>
              fst (getUserInfo eng config tok (Some f)) = [HttpGet rq]))
   \<and> (userInfoUrl config = None \<longrightarrow>
        fst (getUserInfo eng config tok None)
          = [HttpGet (getAuthenticatedRequest driver_userInfoUrl tok)]
        \<and> (\<forall>f rq. f (getAuthenticatedRequest driver_userInfoUrl tok) = Inr rq \<longrightarrow>
              fst (getUserInfo eng config tok (Some f)) = [HttpGet rq]))"
  by (simp add: getAuthenticatedRequest_url getUserInfo_def Let_def)

text \<open>C8, amended, at the override \<open>https://proxy/user\<close> and at no override.\<close>

theorem user_info_url_witness:
  "fst (getUserInfo (sample_engine JUndefined sample_response)
          (sample_config\<lparr>userInfoUrl := Some ''https://proxy/user''\<rparr>) ''tok'' None)
     = [HttpGet (getAuthenticatedRequest ''https://proxy/user'' ''tok'')]
   \<and> fst (getUserInfo (sample_engine JUndefined sample_response) sample_config ''tok'' None)
     = [HttpGet (getAuthenticatedRequest driver_userInfoUrl ''tok'')]"
  using user_info_url [of "''https://proxy/user''" "''tok''"
      "sample_config\<lparr>userInfoUrl := Some ''https://proxy/user''\<rparr>"
      "sample_engine JUndefined sample_response"]
    user_info_url [of "''https://proxy/user''" "''tok''" sample_config
      "sample_engine JUndefined sample_response"]
  by (simp add: sample_config_def)

subsection \<open>C9: a response without the user object\<close>

text \<open>
  C9, as stated (every response that lacks the nested user object makes the
  fetch fail), fails at a response whose \<open>data.user\<close> is the string \<open>abc\<close>: it
  has no user object, the reads of \<open>union_id\<close>, \<open>display_name\<close> and
  \<open>avatar_large_url\<close> on the string give \<open>undefined\<close>, and the fetch returns a
  record of undefined fields.
\<close>

theorem non_object_user_counterexample:
  "\<not> has_user_object response_string_user
   \<and> snd (getUserInfo (sample_engine JUndefined response_string_user) sample_config ''tok'' None)
     = Inr \<lparr>user_id = JUndefined, user_nickName = JUndefined, user_name = JUndefined,
            user_avatarUrl = JUndefined, user_email = [],
            user_emailVerificationState = ''unsupported'',
            user_original = response_string_user\<rparr>"
  by (simp add: has_user_object_def getUserInfo_def Let_def sample_config_def sample_engine_def
      response_string_user_def optProp_def)

text \<open>
  C9, amended: when the profile request is answered by a response whose
  \<open>data?.user\<close> is \<open>undefined\<close> or \<open>null\<close> (there is no \<open>data\<close>, or no \<open>user\<close> in it,
  or the user is \<open>null\<close>), the fetch fails with TypeError, and so do
  \<open>userFromToken\<close> and \<open>user\<close>. Every failure reaches the caller as it is: a
  failure of the fetch is the failure of \<open>userFromToken\<close> and of \<open>user\<close>, a
  failure of the HTTP client is the failure of the fetch, a failure of the code
  exchange is the failure of \<open>user\<close>.
\<close>

theorem missing_user_fails:
  "(fst (getUserInfo eng config tok cb) = [HttpGet rq] \<and> get eng rq = Inr response
      \<and> user_nullish response \<longrightarrow>
        snd (getUserInfo eng config tok cb) = Inl TypeError
        \<and> snd (userFromToken eng config tok cb) = Inl TypeError
        \<and> (\<forall>t. accessToken eng cb = Inr t \<and> token t = tok \<longrightarrow>
              snd (user eng config cb) = Inl TypeError))
   \<and> (\<forall>e. snd (getUserInfo eng config tok cb) = Inl e \<longrightarrow>
          snd (userFromToken eng config tok cb) = Inl e
          \<and> (\<forall>t. accessToken eng cb = Inr t \<and> token t = tok \<longrightarrow>
                snd (user eng config cb) = Inl e))
   \<and> (\<forall>e. get eng rq = Inl e \<and> fst (getUserInfo eng config tok cb) = [HttpGet rq] \<longrightarrow>
          snd (getUserInfo eng config tok cb) = Inl e)
   \<and> (\<forall>e. accessToken eng cb = Inl e \<longrightarrow> snd (user eng config cb) = Inl e)"
proof -
  have up: "\<forall>e. snd (getUserInfo eng config tok cb) = Inl e \<longrightarrow>
          snd (userFromToken eng config tok cb) = Inl e
          \<and> (\<forall>t. accessToken eng cb = Inr t \<and> token t = tok \<longrightarrow>
                snd (user eng config cb) = Inl e)"
    by (auto simp add: userFromToken_snd user_snd)
  have "fst (getUserInfo eng config tok cb) = [HttpGet rq] \<and> get eng rq = Inr response
      \<and> user_nullish response \<longrightarrow> snd (getUserInfo eng config tok cb) = Inl TypeError"
    using lacks_user_TypeError by blast
  moreover have "\<forall>e. get eng rq = Inl e \<and> fst (getUserInfo eng config tok cb) = [HttpGet rq] \<longrightarrow>
          snd (getUserInfo eng config tok cb) = Inl e"
    by (auto simp add: getUserInfo_result)
  moreover have "\<forall>e. accessToken eng cb = Inl e \<longrightarrow> snd (user eng config cb) = Inl e"
    by (simp add: user_def)
  ultimately show ?thesis using up by blast
qed

text \<open>C9, amended, at a response whose \<open>data\<close> has no \<open>user\<close>.\<close>

theorem missing_user_fails_witness:
  "snd (getUserInfo (sample_engine JUndefined response_without_user) sample_config ''tok'' None)
     = Inl TypeError
   \<and> snd (userFromToken (sample_engine JUndefined response_without_user) sample_config ''tok'' None)
     = Inl TypeError
   \<and> snd (user (sample_engine JUndefined response_without_user) sample_config None)
     = Inl TypeError"
proof -
  have "user_nullish response_without_user"
    by (simp add: user_nullish_def response_without_user_def optProp_def)
  moreover have "accessToken (sample_engine JUndefined response_without_user) None
      = Inr sample_token \<and> token sample_token = ''tok''"
    by (simp add: sample_engine_def sample_token_def)
  moreover have "get (sample_engine JUndefined response_without_user)
      (getAuthenticatedRequest driver_userInfoUrl ''tok'') = Inr response_without_user"
    by (simp add: sample_engine_def)
  ultimately show ?thesis
    using missing_user_fails [of "sample_engine JUndefined response_without_user" sample_config
        "''tok''" None "getAuthenticatedRequest driver_userInfoUrl ''tok''"
        response_without_user]
      sample_request [of JUndefined response_without_user "''tok''"]
    by blast
qed

subsection \<open>C10: an empty scope list\<close>

text \<open>
  C10: for a configuration whose scope list is present and empty, the
  customisation sets the \<open>scope\<close> parameter to the empty string, not to the
  default scope.
\<close>

theorem empty_scopes:
  assumes "scopes config = Some []"
  shows "redirect_params (configureRedirectRequest config request) ''scope'' = Some []
         \<and> redirect_params (configureRedirectRequest config request) ''scope''
             \<noteq> Some ''user.info.basic''"
  using assms by (simp add: redirect_params_configured scopeParamName_def)

text \<open>C10 at the sample configuration with the scope list \<open>[]\<close>.\<close>

theorem empty_scopes_witness:
  "redirect_params
     (configureRedirectRequest (sample_config\<lparr>scopes := Some []\<rparr>) engine_redirect) ''scope''
     = Some []
   \<and> redirect_params
     (configureRedirectRequest (sample_config\<lparr>scopes := Some []\<rparr>) engine_redirect) ''scope''
     \<noteq> Some ''user.info.basic''"
  using empty_scopes [of "sample_config\<lparr>scopes := Some []\<rparr>" engine_redirect]
  by (simp add: sample_config_def)

end
